theory Spec2Isabelle
  imports
    Main
    "HOL-Library.AList"
    "HOL-Library.Char_ord"
    "HOL-Library.List_Lexorder"
    "HOL-Library.Product_Lexorder"
    "HOL-Library.Option_ord"
    "HOL-Library.Multiset"
begin

section \<open>Strings, integers, dates and times of the host language\<close>

text \<open>
  A Python \<open>str\<close> is modelled as a \<open>string\<close> whose characters are the code points of
  the text, so the model covers the texts whose code points are below 256. The length of
  the list is the number of characters, and comparing two lists lexicographically orders
  them as Python orders the strings. A value that is a \<open>str\<close> or \<open>None\<close> is a
  \<open>string option\<close>.
\<close>

text \<open>The characters below 256 for which \<open>str.isspace()\<close> holds.\<close>

definition es_espacio :: "char \<Rightarrow> bool" where
  "es_espacio c = (c \<in> set [CHR 0x09, CHR 0x0A, CHR 0x0B, CHR 0x0C, CHR 0x0D,
                            CHR 0x1C, CHR 0x1D, CHR 0x1E, CHR 0x1F, CHR 0x20,
                            CHR 0x85, CHR 0xA0])"

text \<open>
  The characters below 256 that \<open>int()\<close> accepts around a literal: the same without the
  four separators \<open>0x1C\<close> to \<open>0x1F\<close>.
\<close>

definition es_espacio_int :: "char \<Rightarrow> bool" where
  "es_espacio_int c = (c \<in> set [CHR 0x09, CHR 0x0A, CHR 0x0B, CHR 0x0C, CHR 0x0D, CHR 0x20,
                                CHR 0x85, CHR 0xA0])"

definition recortar :: "(char \<Rightarrow> bool) \<Rightarrow> string \<Rightarrow> string" where
  "recortar esp s = rev (dropWhile esp (rev (dropWhile esp s)))"

text \<open>\<open>str.strip()\<close>: drop the white space at both ends.\<close>

definition strip :: "string \<Rightarrow> string" where
  "strip s = recortar es_espacio s"

definition digito :: "nat \<Rightarrow> char" where
  "digito d = char_of (48 + d)"

definition es_digito :: "char \<Rightarrow> bool" where
  "es_digito c = (48 \<le> (of_char c :: nat) \<and> (of_char c :: nat) \<le> 57)"

definition valor_digito :: "char \<Rightarrow> nat" where
  "valor_digito c = of_char c - 48"

text \<open>The decimal digits of a natural number, most significant first.\<close>

fun digitos :: "nat \<Rightarrow> string" where
  "digitos n = (if n < 10 then [digito n] else digitos (n div 10) @ [digito (n mod 10)])"

declare digitos.simps [simp del]

text \<open>
  The interpreter converts between \<open>int\<close> and decimal text only up to this number of
  digits (\<open>sys.get_int_max_str_digits()\<close>, 4300 unless reconfigured) and raises
  \<open>ValueError\<close> beyond it.
\<close>

definition max_str_digits :: nat where
  "max_str_digits = 4300"

definition texto_decimal :: "int \<Rightarrow> string" where
  "texto_decimal i = (if i < 0 then CHR ''-'' # digitos (nat (- i)) else digitos (nat i))"

definition imprimible :: "int \<Rightarrow> bool" where
  "imprimible i = (length (digitos (nat \<bar>i\<bar>)) \<le> max_str_digits)"

text \<open>\<open>str(i)\<close> for an \<open>int\<close>; \<open>None\<close> is the \<open>ValueError\<close>.\<close>

definition py_str :: "int \<Rightarrow> string option" where
  "py_str i = (if imprimible i then Some (texto_decimal i) else None)"

text \<open>
  \<open>int(s)\<close> for a \<open>str\<close>: white space around the literal is ignored, one sign may lead,
  single underscores may stand between digits, and the digits may not be more than the
  limit. \<open>None\<close> is the \<open>ValueError\<close>.
\<close>

fun resto_ok :: "string \<Rightarrow> bool" where
  "resto_ok [] = True"
| "resto_ok (c # cs) =
     (if es_digito c then resto_ok cs
      else if c = CHR ''_'' then (case cs of [] \<Rightarrow> False | d # ds \<Rightarrow> es_digito d \<and> resto_ok ds)
      else False)"

fun literal_ok :: "string \<Rightarrow> bool" where
  "literal_ok [] = False"
| "literal_ok (c # cs) = (es_digito c \<and> resto_ok cs)"

definition valor :: "string \<Rightarrow> nat" where
  "valor s = foldl (\<lambda>acc c. 10 * acc + valor_digito c) 0 (filter (\<lambda>c. c \<noteq> CHR ''_'') s)"

definition literal_nat :: "string \<Rightarrow> nat option" where
  "literal_nat s =
     (if literal_ok s \<and> length (filter (\<lambda>c. c \<noteq> CHR ''_'') s) \<le> max_str_digits
      then Some (valor s) else None)"

definition py_int :: "string \<Rightarrow> int option" where
  "py_int raw =
     (case recortar es_espacio_int raw of
        [] \<Rightarrow> None
      | c # cs \<Rightarrow>
          if c = CHR ''-'' then map_option (\<lambda>n. - int n) (literal_nat cs)
          else if c = CHR ''+'' then map_option int (literal_nat cs)
          else map_option int (literal_nat (c # cs)))"

text \<open>
  \<open>datetime.date\<close> and \<open>datetime.time\<close> values, as \<open>pedir_fecha\<close> and \<open>pedir_hora\<close>
  hand them to the operations. The constructors of the library accept only the values
  described by \<open>fecha_valida\<close> and \<open>hora_valida\<close>.
\<close>

record pydate =
  year :: nat
  month :: nat
  day :: nat

record pytime =
  hour :: nat
  minute :: nat





text \<open>Zero padding on the left, as the formats \<open>%04d\<close> and \<open>%02d\<close> do.\<close>

definition zfill :: "nat \<Rightarrow> string \<Rightarrow> string" where
  "zfill w s = replicate (w - length s) (CHR ''0'') @ s"

text \<open>\<open>date.isoformat()\<close>: \<open>YYYY-MM-DD\<close>.\<close>

definition isoformat :: "pydate \<Rightarrow> string" where
  "isoformat d =
     zfill 4 (digitos (year d)) @ ''-'' @ zfill 2 (digitos (month d)) @ ''-'' @
     zfill 2 (digitos (day d))"

text \<open>\<open>time.strftime("%H:%M")\<close>.\<close>

definition strftime_HM :: "pytime \<Rightarrow> string" where
  "strftime_HM t = zfill 2 (digitos (hour t)) @ '':'' @ zfill 2 (digitos (minute t))"

section \<open>The data model\<close>

text \<open>
  The dataclasses declare their text fields \<open>str\<close> but check nothing, and
  \<open>cargar_datos\<close> can store \<open>None\<close> in each of them; only \<open>id_turno\<close> is always an
  \<open>int\<close>.
\<close>

record cliente =
  dni :: "string option"
  nombre :: "string option"
  telefono :: "string option"

record turno =
  id_turno :: int
  dni_cliente :: "string option"
  fecha :: "string option"
  hora :: "string option"
  servicio :: "string option"
  estado :: "string option"

text \<open>
  The two dictionaries of \<open>Peluqueria\<close> are association lists in insertion order:
  \<open>d[k] = v\<close> is \<open>AList.update k v d\<close> (an existing key keeps its place, a new key goes to
  the end), \<open>d.get(k)\<close> is \<open>map_of d k\<close>, \<open>d.values()\<close> is \<open>map snd d\<close>.
\<close>

record peluqueria =
  clientes :: "(string option \<times> cliente) list"
  turnos :: "(int \<times> turno) list"
  next_id :: int

section \<open>Persistence\<close>

text \<open>
  A CSV file is the list of the rows that the \<open>csv\<close> module writes and would read back
  without its limit on the length of a field, the header first; quoting and line ends
  belong to that module. A file that does not exist is \<open>None\<close>. \<open>escrituras\<close> counts
  the calls of \<open>guardar_datos\<close>.
\<close>

type_synonym fila = "string list"
type_synonym csv = "fila list"

record archivos =
  clientes_csv :: "csv option"
  turnos_csv :: "csv option"
  escrituras :: nat

datatype error =
    KeyError string
  | ValueError
  | TypeError
  | CsvError

text \<open>
  The reader of the \<open>csv\<close> module raises \<open>csv.Error\<close> on a row with a field of more than
  \<open>csv.field_size_limit()\<close> characters.
\<close>

definition field_size_limit :: nat where
  "field_size_limit = 131072"

definition fila_legible :: "fila \<Rightarrow> bool" where
  "fila_legible r = list_all (\<lambda>c. length c \<le> field_size_limit) r"

text \<open>
  \<open>csv.DictReader\<close>: the first row gives the field names; every later row that is not
  empty becomes a dictionary. A row shorter than the header has \<open>None\<close> for the missing
  fields, the surplus of a longer row is stored under the key \<open>None\<close> and never read, and
  of two equal field names the later one wins. The rows come one at a time, so a row
  that cannot be read raises when the loop reaches it.
\<close>

definition fila_dict :: "fila \<Rightarrow> fila \<Rightarrow> (string \<rightharpoonup> string option)" where
  "fila_dict cab r =
     map_of (rev (zip cab (map Some r @ replicate (length cab - length r) None)))"

definition dict_reader :: "csv \<Rightarrow> (error + (string \<rightharpoonup> string option)) list" where
  "dict_reader f =
     (case f of
        [] \<Rightarrow> []
      | cab # filas \<Rightarrow>
          if \<not> fila_legible cab then [Inl CsvError]
          else map (\<lambda>r. if fila_legible r then Inr (fila_dict cab r) else Inl CsvError)
                 (filter (\<lambda>r. r \<noteq> []) filas))"

text \<open>\<open>row[k]\<close>: a missing column raises \<open>KeyError\<close>; the value may be \<open>None\<close>.\<close>

definition campo :: "(string \<rightharpoonup> string option) \<Rightarrow> string \<Rightarrow> error + string option" where
  "campo row k = (case row k of None \<Rightarrow> Inl (KeyError k) | Some v \<Rightarrow> Inr v)"

text \<open>\<open>row.get(k, dflt)\<close>: the default only when the column is missing.\<close>

definition campo_get ::
  "(string \<rightharpoonup> string option) \<Rightarrow> string \<Rightarrow> string \<Rightarrow> error + string option"
where
  "campo_get row k dflt = (case row k of None \<Rightarrow> Inr (Some dflt) | Some v \<Rightarrow> Inr v)"

text \<open>\<open>int(row[k])\<close>; \<open>int(None)\<close> raises \<open>TypeError\<close>.\<close>

definition campo_int :: "(string \<rightharpoonup> string option) \<Rightarrow> string \<Rightarrow> error + int" where
  "campo_int row k =
     (case row k of
        None \<Rightarrow> Inl (KeyError k)
      | Some None \<Rightarrow> Inl TypeError
      | Some (Some v) \<Rightarrow> (case py_int v of None \<Rightarrow> Inl ValueError | Some i \<Rightarrow> Inr i))"

text \<open>Sequencing of steps that may raise: the first exception ends the evaluation.\<close>

definition entonces :: "error + 'a \<Rightarrow> ('a \<Rightarrow> error + 'b) \<Rightarrow> error + 'b" where
  "entonces m k = (case m of Inl e \<Rightarrow> Inl e | Inr x \<Rightarrow> k x)"

definition leer_cliente :: "(string \<rightharpoonup> string option) \<Rightarrow> error + cliente" where
  "leer_cliente row =
     entonces (campo row ''dni'') (\<lambda>d.
     entonces (campo row ''nombre'') (\<lambda>n.
     entonces (campo row ''telefono'') (\<lambda>t.
     Inr \<lparr>dni = d, nombre = n, telefono = t\<rparr>)))"

definition leer_turno :: "(string \<rightharpoonup> string option) \<Rightarrow> error + turno" where
  "leer_turno row =
     entonces (campo_int row ''id_turno'') (\<lambda>i.
     entonces (campo row ''dni_cliente'') (\<lambda>d.
     entonces (campo row ''fecha'') (\<lambda>f.
     entonces (campo row ''hora'') (\<lambda>h.
     entonces (campo row ''servicio'') (\<lambda>s.
     entonces (campo_get row ''estado'' ''ACTIVO'') (\<lambda>a.
     Inr \<lparr>id_turno = i, dni_cliente = d, fecha = f, hora = h, servicio = s, estado = a\<rparr>))))))"

text \<open>The two loops of \<open>cargar_datos\<close>; an exception ends the load.\<close>

fun cargar_clientes ::
  "(error + (string \<rightharpoonup> string option)) list \<Rightarrow> (string option \<times> cliente) list \<Rightarrow>
   error + (string option \<times> cliente) list"
where
  "cargar_clientes [] cs = Inr cs"
| "cargar_clientes (Inl e # rows) cs = Inl e"
| "cargar_clientes (Inr row # rows) cs =
     (case leer_cliente row of
        Inl e \<Rightarrow> Inl e
      | Inr c \<Rightarrow> cargar_clientes rows (AList.update (dni c) c cs))"

fun cargar_turnos ::
  "(error + (string \<rightharpoonup> string option)) list \<Rightarrow> (int \<times> turno) list \<Rightarrow> int \<Rightarrow>
   error + ((int \<times> turno) list \<times> int)"
where
  "cargar_turnos [] ts max_id = Inr (ts, max_id)"
| "cargar_turnos (Inl e # rows) ts max_id = Inl e"
| "cargar_turnos (Inr row # rows) ts max_id =
     (case leer_turno row of
        Inl e \<Rightarrow> Inl e
      | Inr t \<Rightarrow>
          cargar_turnos rows (AList.update (id_turno t) t ts)
            (if id_turno t > max_id then id_turno t else max_id))"

definition cargar_datos :: "peluqueria \<Rightarrow> archivos \<Rightarrow> error + peluqueria" where
  "cargar_datos p d =
     (case (case clientes_csv d of
              None \<Rightarrow> Inr (clientes p)
            | Some f \<Rightarrow> cargar_clientes (dict_reader f) (clientes p)) of
        Inl e \<Rightarrow> Inl e
      | Inr cs \<Rightarrow>
          (case turnos_csv d of
             None \<Rightarrow> Inr (p\<lparr>clientes := cs\<rparr>)
           | Some f \<Rightarrow>
               (case cargar_turnos (dict_reader f) (turnos p) 0 of
                  Inl e \<Rightarrow> Inl e
                | Inr (ts, max_id) \<Rightarrow>
                    Inr (p\<lparr>clientes := cs, turnos := ts, next_id := max_id + 1\<rparr>))))"

text \<open>\<open>Peluqueria.__init__\<close>: empty tables, counter 1, then the load.\<close>

definition peluqueria_vacia :: peluqueria where
  "peluqueria_vacia = \<lparr>clientes = [], turnos = [], next_id = 1\<rparr>"

definition init :: "archivos \<Rightarrow> error + peluqueria" where
  "init d = cargar_datos peluqueria_vacia d"

definition cab_clientes :: fila where
  "cab_clientes = [''dni'', ''nombre'', ''telefono'']"

definition cab_turnos :: fila where
  "cab_turnos = [''id_turno'', ''dni_cliente'', ''fecha'', ''hora'', ''servicio'', ''estado'']"

text \<open>The writer of the \<open>csv\<close> module writes \<open>None\<close> as the empty text.\<close>

definition celda :: "string option \<Rightarrow> string" where
  "celda v = (case v of None \<Rightarrow> [] | Some s \<Rightarrow> s)"

text \<open>
  \<open>writer.writerow(asdict(x))\<close>: the fields in header order. The writer turns the
  integer into text with \<open>str\<close>; \<open>fila_turno\<close> is the row when that succeeds.
\<close>

definition fila_cliente :: "cliente \<Rightarrow> fila" where
  "fila_cliente c = [celda (dni c), celda (nombre c), celda (telefono c)]"

definition fila_turno :: "turno \<Rightarrow> fila" where
  "fila_turno t =
     [texto_decimal (id_turno t), celda (dni_cliente t), celda (fecha t), celda (hora t),
      celda (servicio t), celda (estado t)]"

text \<open>
  The loop that writes the appointments: a row is written whole or not at all, so when
  \<open>str\<close> raises, the file keeps the rows before that appointment.
\<close>

fun escribir_turnos :: "turno list \<Rightarrow> fila list \<times> error option" where
  "escribir_turnos [] = ([], None)"
| "escribir_turnos (t # ts) =
     (case py_str (id_turno t) of
        None \<Rightarrow> ([], Some ValueError)
      | Some s \<Rightarrow> ((s # tl (fila_turno t)) # fst (escribir_turnos ts), snd (escribir_turnos ts)))"

text \<open>
  \<open>guardar_datos\<close> returns the exception it raised, if any, and the files as it left
  them.
\<close>

definition guardar_datos :: "peluqueria \<Rightarrow> archivos \<Rightarrow> error option \<times> archivos" where
  "guardar_datos p d =
     (snd (escribir_turnos (map snd (turnos p))),
      d\<lparr>clientes_csv := Some (cab_clientes # map fila_cliente (map snd (clientes p))),
        turnos_csv := Some (cab_turnos # fst (escribir_turnos (map snd (turnos p)))),
        escrituras := Suc (escrituras d)\<rparr>)"

section \<open>The operations\<close>

text \<open>
  Each operation takes what the operator types (raw text, or a date and a time already
  read by \<open>pedir_fecha\<close> and \<open>pedir_hora\<close>), the object and the files, and returns the
  message it prints with the object and the files after it. An exception that no one
  catches ends the program; \<open>Excepcion\<close> stands for it, with the object and the files as
  they are at that moment.
\<close>

datatype resultado =
    Ya_existe_cliente
  | Cliente_registrado
  | No_hay_clientes
  | No_existe_cliente
  | Turno_ya_activo
  | Turno_registrado int
  | No_hay_turnos
  | No_se_encontraron
  | Listado "(turno \<times> string) list"
  | ID_invalido
  | No_existe_turno
  | Opcion_no_valida
  | Turno_actualizado
  | Datos_guardados
  | Saliendo
  | Opcion_menu_no_valida
  | Excepcion error

text \<open>\<open>self.guardar_datos()\<close> followed by the message of success.\<close>

definition guardar_y_avisar ::
  "resultado \<Rightarrow> peluqueria \<Rightarrow> archivos \<Rightarrow> resultado \<times> peluqueria \<times> archivos"
where
  "guardar_y_avisar msg p d =
     (case fst (guardar_datos p d) of
        None \<Rightarrow> (msg, p, snd (guardar_datos p d))
      | Some e \<Rightarrow> (Excepcion e, p, snd (guardar_datos p d)))"

text \<open>The loop of \<open>turno_ocupado\<close> over \<open>self.turnos.values()\<close>, leaving at the first hit.\<close>

fun hay_activo :: "turno list \<Rightarrow> string \<Rightarrow> string \<Rightarrow> bool" where
  "hay_activo [] f h = False"
| "hay_activo (t # ts) f h =
     (if estado t = Some ''ACTIVO'' \<and> fecha t = Some f \<and> hora t = Some h then True
      else hay_activo ts f h)"

definition turno_ocupado :: "peluqueria \<Rightarrow> pydate \<Rightarrow> pytime \<Rightarrow> bool" where
  "turno_ocupado p f h = hay_activo (map snd (turnos p)) (isoformat f) (strftime_HM h)"

definition registrar_cliente ::
  "string \<Rightarrow> string \<Rightarrow> string \<Rightarrow> peluqueria \<times> archivos \<Rightarrow> resultado \<times> peluqueria \<times> archivos"
where
  "registrar_cliente dni_in nombre_in telefono_in s =
     (let p = fst s; d = snd s; k = strip dni_in in
      if map_of (clientes p) (Some k) \<noteq> None then (Ya_existe_cliente, p, d)
      else
        let c = \<lparr>dni = Some k, nombre = Some (strip nombre_in),
                 telefono = Some (strip telefono_in)\<rparr>;
            p' = p\<lparr>clientes := AList.update (Some k) c (clientes p)\<rparr>
        in guardar_y_avisar Cliente_registrado p' d)"

text \<open>The appointment that \<open>solicitar_turno\<close> builds; \<open>estado\<close> takes its default.\<close>

definition nuevo_turno :: "int \<Rightarrow> string \<Rightarrow> pydate \<Rightarrow> pytime \<Rightarrow> string \<Rightarrow> turno" where
  "nuevo_turno i k f h s =
     \<lparr>id_turno = i, dni_cliente = Some k, fecha = Some (isoformat f),
      hora = Some (strftime_HM h), servicio = Some s, estado = Some ''ACTIVO''\<rparr>"

definition solicitar_turno ::
  "string \<Rightarrow> pydate \<Rightarrow> pytime \<Rightarrow> string \<Rightarrow> peluqueria \<times> archivos \<Rightarrow>
   resultado \<times> peluqueria \<times> archivos"
where
  "solicitar_turno dni_in f h servicio_in s =
     (let p = fst s; d = snd s in
      if clientes p = [] then (No_hay_clientes, p, d)
      else
        let k = strip dni_in in
        if map_of (clientes p) (Some k) = None then (No_existe_cliente, p, d)
        else if turno_ocupado p f h then (Turno_ya_activo, p, d)
        else
          let t = nuevo_turno (next_id p) k f h (strip servicio_in);
              p' = p\<lparr>turnos := AList.update (id_turno t) t (turnos p),
                     next_id := next_id p + 1\<rparr>
          in guardar_y_avisar (Turno_registrado (id_turno t)) p' d)"


text \<open>
  The key of \<open>list.sort\<close> in \<open>listar_turnos\<close> is the pair \<open>(t.fecha, t.hora)\<close>. The
  operator \<open><\<close> on two such pairs compares the first components that differ, and raises
  \<open>TypeError\<close> when one of them is \<open>None\<close>; two equal pairs are not less than one
  another. \<open>ordenables\<close> holds when \<open><\<close> does not raise.
\<close>

definition clave :: "turno \<Rightarrow> string option \<times> string option" where
  "clave t = (fecha t, hora t)"

definition ordenables :: "string option \<times> string option \<Rightarrow> string option \<times> string option \<Rightarrow> bool" where
  "ordenables a b =
     (if fst a \<noteq> fst b then fst a \<noteq> None \<and> fst b \<noteq> None
      else if snd a \<noteq> snd b then snd a \<noteq> None \<and> snd b \<noteq> None
      else True)"

text \<open>
  \<open>list.sort(key=...)\<close>: a stable sort by \<open><\<close> on the keys, as \<open>sort_key\<close> is on keys
  that \<open><\<close> orders; it raises \<open>TypeError\<close> when two keys of the list are not ordered by
  \<open><\<close>.
\<close>

definition ordenar_turnos :: "turno list \<Rightarrow> error + turno list" where
  "ordenar_turnos ts =
     (if list_all (\<lambda>a. list_all (\<lambda>b. ordenables (clave a) (clave b)) ts) ts
      then Inr (sort_key clave ts) else Inl TypeError)"

text \<open>
  \<open>listar_turnos\<close>: option 2 filters by client, option 3 by date, anything else lists all.
  Each line shows the appointment and the name of its client, \<open>None\<close> printed as
  \<open>None\<close>.
\<close>

definition nombre_de :: "peluqueria \<Rightarrow> turno \<Rightarrow> string" where
  "nombre_de p t =
     (case map_of (clientes p) (dni_cliente t) of
        None \<Rightarrow> ''Desconocido''
      | Some c \<Rightarrow> (case nombre c of None \<Rightarrow> ''None'' | Some n \<Rightarrow> n))"

definition listar_turnos :: "string \<Rightarrow> string \<Rightarrow> pydate \<Rightarrow> peluqueria \<Rightarrow> resultado" where
  "listar_turnos opcion_in dni_in f p =
     (if turnos p = [] then No_hay_turnos
      else
        let opcion = strip opcion_in;
            todos = map snd (turnos p);
            turnos_a_mostrar =
              (if opcion = ''2'' then filter (\<lambda>t. dni_cliente t = Some (strip dni_in)) todos
               else if opcion = ''3'' then filter (\<lambda>t. fecha t = Some (isoformat f)) todos
               else todos)
        in if turnos_a_mostrar = [] then No_se_encontraron
           else (case ordenar_turnos turnos_a_mostrar of
                   Inl e \<Rightarrow> Excepcion e
                 | Inr ordenados \<Rightarrow> Listado (map (\<lambda>t. (t, nombre_de p t)) ordenados)))"


definition modificar_o_cancelar_turno ::
  "string \<Rightarrow> string \<Rightarrow> pydate \<Rightarrow> pytime \<Rightarrow> string \<Rightarrow> peluqueria \<times> archivos \<Rightarrow>
   resultado \<times> peluqueria \<times> archivos"
where
  "modificar_o_cancelar_turno id_in opcion_in f h servicio_in s =
     (let p = fst s; d = snd s in
      if turnos p = [] then (No_hay_turnos, p, d)
      else
        case py_int id_in of
          None \<Rightarrow> (ID_invalido, p, d)
        | Some i \<Rightarrow>
            (case map_of (turnos p) i of
               None \<Rightarrow> (No_existe_turno, p, d)
             | Some t \<Rightarrow>
                 let opcion = strip opcion_in in
                 if opcion = ''1'' then
                   if turno_ocupado p f h then (Turno_ya_activo, p, d)
                   else
                     guardar_y_avisar Turno_actualizado
                       (p\<lparr>turnos := AList.update i
                            (t\<lparr>fecha := Some (isoformat f), hora := Some (strftime_HM h)\<rparr>)
                            (turnos p)\<rparr>) d
                 else if opcion = ''2'' then
                   guardar_y_avisar Turno_actualizado
                     (p\<lparr>turnos := AList.update i
                          (t\<lparr>servicio := Some (strip servicio_in)\<rparr>) (turnos p)\<rparr>) d
                 else if opcion = ''3'' then
                   guardar_y_avisar Turno_actualizado
                     (p\<lparr>turnos := AList.update i
                          (t\<lparr>estado := Some ''CANCELADO''\<rparr>) (turnos p)\<rparr>) d
                 else (Opcion_no_valida, p, d)))"

text \<open>
  The menu loop \<open>ejecutar\<close>, run on a script of the operator's choices with their inputs;
  it prints one message per choice and stops at \<open>Salir\<close> or at an exception.
\<close>

datatype comando =
    Registrar string string string
  | Solicitar string pydate pytime string
  | Listar string string pydate
  | Modificar string string pydate pytime string
  | Guardar
  | Salir
  | Otra

fun paso :: "comando \<Rightarrow> peluqueria \<times> archivos \<Rightarrow> resultado \<times> peluqueria \<times> archivos" where
  "paso (Registrar dni_in nombre_in telefono_in) s = registrar_cliente dni_in nombre_in telefono_in s"
| "paso (Solicitar dni_in f h servicio_in) s = solicitar_turno dni_in f h servicio_in s"
| "paso (Listar opcion_in dni_in f) s = (listar_turnos opcion_in dni_in f (fst s), s)"
| "paso (Modificar id_in opcion_in f h servicio_in) s =
     modificar_o_cancelar_turno id_in opcion_in f h servicio_in s"
| "paso Guardar s = guardar_y_avisar Datos_guardados (fst s) (snd s)"
| "paso Salir s = (Saliendo, s)"
| "paso Otra s = (Opcion_menu_no_valida, s)"

fun es_excepcion :: "resultado \<Rightarrow> bool" where
  "es_excepcion (Excepcion e) = True"
| "es_excepcion _ = False"

fun ejecutar ::
  "comando list \<Rightarrow> peluqueria \<times> archivos \<Rightarrow> resultado list \<times> peluqueria \<times> archivos"
where
  "ejecutar [] s = ([], s)"
| "ejecutar (c # cs) s =
     (if c = Salir then ([Saliendo], s)
      else if es_excepcion (fst (paso c s)) then ([fst (paso c s)], snd (paso c s))
      else (fst (paso c s) # fst (ejecutar cs (snd (paso c s))),
            snd (ejecutar cs (snd (paso c s)))))"

text \<open>The files before the first run: none exists.\<close>

definition sin_archivos :: archivos where
  "sin_archivos = \<lparr>clientes_csv = None, turnos_csv = None, escrituras = 0\<rparr>"

text \<open>The messages with which an operation refuses a request.\<close>

definition es_fallo :: "resultado \<Rightarrow> bool" where
  "es_fallo r =
     (r = Ya_existe_cliente \<or> r = No_hay_clientes \<or> r = No_existe_cliente \<or>
      r = Turno_ya_activo \<or> r = No_hay_turnos \<or> r = ID_invalido \<or>
      r = No_existe_turno \<or> r = Opcion_no_valida)"

text \<open>The ACTIVE appointments of the table at the slot given by the two stored values.\<close>

definition activos :: "(int \<times> turno) list \<Rightarrow> string option \<Rightarrow> string option \<Rightarrow> turno list" where
  "activos ts f h =
     filter (\<lambda>t. estado t = Some ''ACTIVO'' \<and> fecha t = f \<and> hora t = h) (map snd ts)"

definition activos_en :: "peluqueria \<Rightarrow> string option \<Rightarrow> string option \<Rightarrow> turno list" where
  "activos_en p f h = activos (turnos p) f h"








section \<open>Example data\<close>

definition fecha_ej :: pydate where
  "fecha_ej = \<lparr>year = 2024, month = 5, day = 1\<rparr>"

definition hora_ej :: pytime where
  "hora_ej = \<lparr>hour = 10, minute = 0\<rparr>"

definition hora_ej2 :: pytime where
  "hora_ej2 = \<lparr>hour = 11, minute = 30\<rparr>"

definition turno_en :: "int \<Rightarrow> string \<Rightarrow> string \<Rightarrow> string \<Rightarrow> string \<Rightarrow> turno" where
  "turno_en i f h s e =
     \<lparr>id_turno = i, dni_cliente = Some ''123'', fecha = Some f, hora = Some h,
      servicio = Some s, estado = Some e\<rparr>"

definition turno_ej :: "int \<Rightarrow> string \<Rightarrow> string \<Rightarrow> turno" where
  "turno_ej i s e = turno_en i ''2024-05-01'' ''10:00'' s e"

definition cliente_ej :: cliente where
  "cliente_ej = \<lparr>dni = Some ''123'', nombre = Some ''Ana'', telefono = Some ''555''\<rparr>"

text \<open>Files in which two ACTIVE appointments hold the same slot.\<close>

definition disco_doble :: archivos where
  "disco_doble =
     \<lparr>clientes_csv = Some [cab_clientes, [''123'', ''Ana'', ''555'']],
      turnos_csv = Some [cab_turnos,
        [''1'', ''123'', ''2024-05-01'', ''10:00'', ''corte'', ''ACTIVO''],
        [''2'', ''123'', ''2024-05-01'', ''10:00'', ''color'', ''ACTIVO'']],
      escrituras = 0\<rparr>"

definition peluqueria_doble :: peluqueria where
  "peluqueria_doble =
     \<lparr>clientes = [(Some ''123'', cliente_ej)],
      turnos = [(1, turno_ej 1 ''corte'' ''ACTIVO''), (2, turno_ej 2 ''color'' ''ACTIVO'')],
      next_id = 3\<rparr>"

text \<open>Files whose only appointment has a negative identifier.\<close>

definition disco_negativo :: archivos where
  "disco_negativo =
     \<lparr>clientes_csv = None,
      turnos_csv = Some [cab_turnos,
        [''-5'', ''123'', ''2024-05-01'', ''10:00'', ''corte'', ''ACTIVO'']],
      escrituras = 0\<rparr>"

definition peluqueria_negativa :: peluqueria where
  "peluqueria_negativa =
     \<lparr>clientes = [], turnos = [(- 5, turno_ej (- 5) ''corte'' ''ACTIVO'')], next_id = 1\<rparr>"

text \<open>Files whose only appointment has an identifier that is no number.\<close>

definition disco_malo :: archivos where
  "disco_malo =
     \<lparr>clientes_csv = None,
      turnos_csv = Some [cab_turnos,
        [''x'', ''123'', ''2024-05-01'', ''10:00'', ''corte'', ''ACTIVO'']],
      escrituras = 0\<rparr>"

text \<open>
  Files whose second appointment row stops after the date: the reader gives \<open>None\<close> for
  its time, service and status. Below them the tables that \<open>__init__\<close> builds from these
  files, and the tables that it builds after these have been saved.
\<close>

definition disco_sin_hora :: archivos where
  "disco_sin_hora =
     \<lparr>clientes_csv = Some [cab_clientes, [''123'', ''Ana'', ''555'']],
      turnos_csv = Some [cab_turnos,
        [''1'', ''123'', ''2024-05-01'', ''10:00'', ''corte'', ''ACTIVO''],
        [''2'', ''123'', ''2024-05-01'']],
      escrituras = 0\<rparr>"

definition turno_sin_hora :: turno where
  "turno_sin_hora =
     \<lparr>id_turno = 2, dni_cliente = Some ''123'', fecha = Some ''2024-05-01'', hora = None,
      servicio = None, estado = None\<rparr>"

definition peluqueria_sin_hora :: peluqueria where
  "peluqueria_sin_hora =
     \<lparr>clientes = [(Some ''123'', cliente_ej)],
      turnos = [(1, turno_ej 1 ''corte'' ''ACTIVO''), (2, turno_sin_hora)],
      next_id = 3\<rparr>"


text \<open>The state after registering a client and booking one appointment, from no files.\<close>

definition peluqueria_uno :: peluqueria where
  "peluqueria_uno =
     \<lparr>clientes = [(Some ''123'', cliente_ej)],
      turnos = [(1, turno_ej 1 ''corte'' ''ACTIVO'')],
      next_id = 2\<rparr>"

definition disco_uno :: archivos where
  "disco_uno =
     \<lparr>clientes_csv = Some [cab_clientes, [''123'', ''Ana'', ''555'']],
      turnos_csv = Some [cab_turnos,
        [''1'', ''123'', ''2024-05-01'', ''10:00'', ''corte'', ''ACTIVO'']],
      escrituras = 2\<rparr>"

text \<open>
  The state after registering a client, booking two appointments and cancelling the
  first, from no files.
\<close>

definition guion_dos :: "comando list" where
  "guion_dos =
     [Registrar ''123'' ''Ana'' ''555'',
      Solicitar ''123'' fecha_ej hora_ej ''corte'',
      Solicitar ''123'' fecha_ej hora_ej2 ''color'',
      Modificar ''1'' ''3'' fecha_ej hora_ej []]"

definition peluqueria_dos :: peluqueria where
  "peluqueria_dos =
     \<lparr>clientes = [(Some ''123'', cliente_ej)],
      turnos = [(1, turno_ej 1 ''corte'' ''CANCELADO''),
                (2, turno_en 2 ''2024-05-01'' ''11:30'' ''color'' ''ACTIVO'')],
      next_id = 3\<rparr>"

definition disco_dos :: archivos where
  "disco_dos =
     \<lparr>clientes_csv = Some [cab_clientes, [''123'', ''Ana'', ''555'']],
      turnos_csv = Some [cab_turnos,
        [''1'', ''123'', ''2024-05-01'', ''10:00'', ''corte'', ''CANCELADO''],
        [''2'', ''123'', ''2024-05-01'', ''11:30'', ''color'', ''ACTIVO'']],
      escrituras = 4\<rparr>"

text \<open>Tables whose only appointment is CANCELLED.\<close>

definition peluqueria_cancelada :: peluqueria where
  "peluqueria_cancelada =
     \<lparr>clientes = [(Some ''123'', cliente_ej)],
      turnos = [(1, turno_ej 1 ''corte'' ''CANCELADO'')],
      next_id = 2\<rparr>"


section \<open>Facts about the formats\<close>



















lemma length_digitos: "0 < k \<Longrightarrow> n < 10 ^ k \<Longrightarrow> length (digitos n) \<le> k"
proof (induction n arbitrary: k rule: digitos.induct)
  case (1 n)
  show ?case
  proof (cases "n < 10")
    case True
    with 1(2) show ?thesis by (subst digitos.simps) simp
  next
    case False
    obtain j where k: "k = Suc j" using 1(2) by (cases k) auto
    have "0 < j" using False 1(3) k by (cases j) auto
    moreover have "n div 10 < 10 ^ j" using 1(3) k by (simp add: div_less_iff_less_mult mult.commute)
    ultimately have "length (digitos (n div 10)) \<le> j" using 1(1) False by simp
    with False k show ?thesis by (subst digitos.simps) simp
  qed
qed









lemma imprimible_pequeno: "\<bar>i\<bar> < 10 ^ 10 \<Longrightarrow> imprimible i"
proof -
  assume "\<bar>i\<bar> < 10 ^ 10"
  then have "nat \<bar>i\<bar> < 10 ^ 10"
    by (simp add: nat_less_iff)
  then have "length (digitos (nat \<bar>i\<bar>)) \<le> 10"
    by (intro length_digitos) simp_all
  then show ?thesis
    by (simp add: imprimible_def max_str_digits_def)
qed

section \<open>Facts about the dictionaries and the slot check\<close>




lemma cuenta_update_le:
  "length (filter P (map snd (AList.update k v al))) \<le>
     length (filter P (map snd al)) + (if P v then 1 else 0)"
  by (induction al) auto

lemma cuenta_update_eq:
  "map_of al k = Some old \<Longrightarrow>
   length (filter P (map snd (AList.update k v al))) + (if P old then 1 else 0) =
     length (filter P (map snd al)) + (if P v then 1 else 0)"
  by (induction al) (auto split: if_splits)

lemma guardar_y_avisar_mem: "fst (snd (guardar_y_avisar m p d)) = p"
  by (simp add: guardar_y_avisar_def split: option.splits)


lemma guardar_y_avisar_msg:
  "fst (guardar_y_avisar m p d) =
     (case fst (guardar_datos p d) of None \<Rightarrow> m | Some e \<Rightarrow> Excepcion e)"
  by (simp add: guardar_y_avisar_def split: option.splits)

lemma hay_activo_iff:
  "hay_activo ts f h \<longleftrightarrow> (\<exists>t \<in> set ts. estado t = Some ''ACTIVO'' \<and> fecha t = Some f \<and> hora t = Some h)"
  by (induction ts) auto

lemma libre_sin_activos:
  "\<not> turno_ocupado p f h \<longleftrightarrow> activos (turnos p) (Some (isoformat f)) (Some (strftime_HM h)) = []"
  by (auto simp: turno_ocupado_def hay_activo_iff activos_def filter_empty_conv)

lemma activos_update_le:
  "length (activos (AList.update k v ts) f h) \<le>
     length (activos ts f h) + (if estado v = Some ''ACTIVO'' \<and> fecha v = f \<and> hora v = h then 1 else 0)"
  unfolding activos_def by (rule cuenta_update_le)

lemma nuevo_en_libre:
  assumes inv: "\<forall>f h. length (activos ts f h) \<le> 1"
    and libre: "activos ts (fecha v) (hora v) = []"
  shows "length (activos (AList.update k v ts) f h) \<le> 1"
proof (cases "fecha v = f \<and> hora v = h")
  case True
  with libre activos_update_le [of k v ts f h] show ?thesis
    by (simp split: if_splits)
next
  case False
  have "length (activos (AList.update k v ts) f h) \<le> length (activos ts f h)"
    using False activos_update_le [of k v ts f h] by (simp split: if_splits)
  also have "\<dots> \<le> 1" using inv by blast
  finally show ?thesis .
qed

lemma cambio_inactivo:
  assumes inv: "\<forall>f h. length (activos ts f h) \<le> 1"
    and old: "map_of ts k = Some old"
    and imp: "estado v = Some ''ACTIVO'' \<longrightarrow> estado old = Some ''ACTIVO'' \<and> fecha v = fecha old \<and> hora v = hora old"
  shows "length (activos (AList.update k v ts) f h) \<le> 1"
proof -
  let ?P = "\<lambda>t. estado t = Some ''ACTIVO'' \<and> fecha t = f \<and> hora t = h"
  have "length (filter ?P (map snd (AList.update k v ts))) + (if ?P old then 1 else 0) =
        length (filter ?P (map snd ts)) + (if ?P v then 1 else 0)"
    using old by (rule cuenta_update_eq)
  moreover have "?P v \<longrightarrow> ?P old" using imp by auto
  moreover have "length (filter ?P (map snd ts)) \<le> 1"
    using inv by (simp add: activos_def)
  ultimately show ?thesis
    by (auto simp: activos_def split: if_splits)
qed

lemma registrar_turnos: "turnos (fst (snd (registrar_cliente a b c s))) = turnos (fst s)"
  by (simp add: registrar_cliente_def Let_def guardar_y_avisar_mem)

lemma solicitar_casos:
  "fst (snd (solicitar_turno a f h sv s)) = fst s \<or>
   (\<not> turno_ocupado (fst s) f h \<and>
    (\<exists>k v. fecha v = Some (isoformat f) \<and> hora v = Some (strftime_HM h) \<and>
       turnos (fst (snd (solicitar_turno a f h sv s))) = AList.update k v (turnos (fst s))))"
proof (cases s)
  case (Pair p d)
  show ?thesis
  proof (cases "clientes p = [] \<or> map_of (clientes p) (Some (strip a)) = None \<or> turno_ocupado p f h")
    case True
    with Pair show ?thesis by (auto simp: solicitar_turno_def Let_def guardar_y_avisar_mem nuevo_turno_def)
  next
    case False
    let ?v = "nuevo_turno (next_id p) (strip a) f h (strip sv)"
    have "turnos (fst (snd (solicitar_turno a f h sv s))) = AList.update (next_id p) ?v (turnos p)"
      using Pair False by (auto simp: solicitar_turno_def Let_def guardar_y_avisar_mem nuevo_turno_def)
    moreover have "fecha ?v = Some (isoformat f)" "hora ?v = Some (strftime_HM h)"
      by (simp_all add: nuevo_turno_def)
    ultimately show ?thesis using False Pair by (metis fst_conv)
  qed
qed

lemma modificar_casos:
  "fst (snd (modificar_o_cancelar_turno a op f h sv s)) = fst s \<or>
   (\<not> turno_ocupado (fst s) f h \<and>
    (\<exists>k v. fecha v = Some (isoformat f) \<and> hora v = Some (strftime_HM h) \<and>
       turnos (fst (snd (modificar_o_cancelar_turno a op f h sv s))) = AList.update k v (turnos (fst s)))) \<or>
   (\<exists>k v old. map_of (turnos (fst s)) k = Some old \<and>
       (estado v = Some ''ACTIVO'' \<longrightarrow> estado old = Some ''ACTIVO'' \<and> fecha v = fecha old \<and> hora v = hora old) \<and>
       turnos (fst (snd (modificar_o_cancelar_turno a op f h sv s))) = AList.update k v (turnos (fst s)))"
proof (cases s)
  case (Pair p d)
  show ?thesis
  proof (cases "turnos p = []")
    case True
    with Pair show ?thesis by (simp add: modificar_o_cancelar_turno_def)
  next
    case False
    note ne = this
    show ?thesis
    proof (cases "py_int a")
      case None
      with Pair ne show ?thesis by (simp add: modificar_o_cancelar_turno_def)
    next
      case (Some i)
      show ?thesis
      proof (cases "map_of (turnos p) i")
        case None
        with Pair ne Some show ?thesis by (simp add: modificar_o_cancelar_turno_def)
      next
        case (Some t)
        note t = this
        consider (uno) "strip op = ''1''" | (dos) "strip op \<noteq> ''1''" "strip op = ''2''"
          | (tres) "strip op \<noteq> ''1''" "strip op \<noteq> ''2''" "strip op = ''3''"
          | (otra) "strip op \<noteq> ''1''" "strip op \<noteq> ''2''" "strip op \<noteq> ''3''"
          by blast
        then show ?thesis
        proof cases
          case uno
          show ?thesis
          proof (cases "turno_ocupado p f h")
            case True
            with Pair ne \<open>py_int a = Some i\<close> t uno show ?thesis
              by (simp add: modificar_o_cancelar_turno_def)
          next
            case False
            have "turnos (fst (snd (modificar_o_cancelar_turno a op f h sv s))) =
                  AList.update i (t\<lparr>fecha := Some (isoformat f), hora := Some (strftime_HM h)\<rparr>) (turnos p)"
              using Pair ne \<open>py_int a = Some i\<close> t uno False
              by (simp add: modificar_o_cancelar_turno_def Let_def guardar_y_avisar_mem)
            moreover have "fecha (t\<lparr>fecha := Some (isoformat f), hora := Some (strftime_HM h)\<rparr>) = Some (isoformat f)"
              "hora (t\<lparr>fecha := Some (isoformat f), hora := Some (strftime_HM h)\<rparr>) = Some (strftime_HM h)"
              by simp_all
            ultimately show ?thesis using False Pair by (metis fst_conv)
          qed
        next
          case dos
          have "turnos (fst (snd (modificar_o_cancelar_turno a op f h sv s))) =
                AList.update i (t\<lparr>servicio := Some (strip sv)\<rparr>) (turnos p)"
            using Pair ne \<open>py_int a = Some i\<close> t dos
            by (simp add: modificar_o_cancelar_turno_def Let_def guardar_y_avisar_mem)
          moreover have "estado (t\<lparr>servicio := Some (strip sv)\<rparr>) = Some ''ACTIVO'' \<longrightarrow>
             estado t = Some ''ACTIVO'' \<and> fecha (t\<lparr>servicio := Some (strip sv)\<rparr>) = fecha t \<and>
             hora (t\<lparr>servicio := Some (strip sv)\<rparr>) = hora t"
            by simp
          ultimately show ?thesis using t Pair by (metis fst_conv)
        next
          case tres
          have "turnos (fst (snd (modificar_o_cancelar_turno a op f h sv s))) =
                AList.update i (t\<lparr>estado := Some ''CANCELADO''\<rparr>) (turnos p)"
            using Pair ne \<open>py_int a = Some i\<close> t tres
            by (simp add: modificar_o_cancelar_turno_def Let_def guardar_y_avisar_mem)
          moreover have "estado (t\<lparr>estado := Some ''CANCELADO''\<rparr>) = Some ''ACTIVO'' \<longrightarrow>
             estado t = Some ''ACTIVO'' \<and> fecha (t\<lparr>estado := Some ''CANCELADO''\<rparr>) = fecha t \<and>
             hora (t\<lparr>estado := Some ''CANCELADO''\<rparr>) = hora t"
            by simp
          ultimately show ?thesis using t Pair by (metis fst_conv)
        next
          case otra
          with Pair ne \<open>py_int a = Some i\<close> t show ?thesis
            by (simp add: modificar_o_cancelar_turno_def)
        qed
      qed
    qed
  qed
qed

lemma paso_inv:
  assumes inv: "\<forall>f h. length (activos (turnos (fst s)) f h) \<le> 1"
  shows "length (activos (turnos (fst (snd (paso c s)))) f h) \<le> 1"
proof (cases c)
  case (Registrar a b c)
  with inv show ?thesis
    by (simp add: registrar_turnos)
next
  case (Solicitar a f' h' sv)
  from solicitar_casos [of a f' h' sv s] show ?thesis
  proof (elim disjE conjE exE)
    assume "fst (snd (solicitar_turno a f' h' sv s)) = fst s"
    with inv Solicitar show ?thesis by simp
  next
    fix k v
    assume "\<not> turno_ocupado (fst s) f' h'" "fecha v = Some (isoformat f')" "hora v = Some (strftime_HM h')"
      and eq: "turnos (fst (snd (solicitar_turno a f' h' sv s))) = AList.update k v (turnos (fst s))"
    then have "activos (turnos (fst s)) (fecha v) (hora v) = []"
      by (simp add: libre_sin_activos)
    from nuevo_en_libre [OF inv this] eq Solicitar show ?thesis by simp
  qed
next
  case (Listar a b c)
  with inv show ?thesis by simp
next
  case (Modificar a op f' h' sv)
  from modificar_casos [of a op f' h' sv s] show ?thesis
  proof (elim disjE conjE exE)
    assume "fst (snd (modificar_o_cancelar_turno a op f' h' sv s)) = fst s"
    with inv Modificar show ?thesis by simp
  next
    fix k v
    assume "\<not> turno_ocupado (fst s) f' h'" "fecha v = Some (isoformat f')" "hora v = Some (strftime_HM h')"
      and eq: "turnos (fst (snd (modificar_o_cancelar_turno a op f' h' sv s))) =
               AList.update k v (turnos (fst s))"
    then have "activos (turnos (fst s)) (fecha v) (hora v) = []"
      by (simp add: libre_sin_activos)
    from nuevo_en_libre [OF inv this] eq Modificar show ?thesis by simp
  next
    fix k v old
    assume old: "map_of (turnos (fst s)) k = Some old"
      and imp: "estado v = Some ''ACTIVO'' \<longrightarrow>
                estado old = Some ''ACTIVO'' \<and> fecha v = fecha old \<and> hora v = hora old"
      and eq: "turnos (fst (snd (modificar_o_cancelar_turno a op f' h' sv s))) =
               AList.update k v (turnos (fst s))"
    from cambio_inactivo [OF inv old imp] eq Modificar show ?thesis by simp
  qed
next
  case Guardar
  with inv show ?thesis by (simp add: guardar_y_avisar_mem)
next
  case Salir
  with inv show ?thesis by simp
next
  case Otra
  with inv show ?thesis by simp
qed

lemma ejecutar_inv:
  "\<forall>f h. length (activos (turnos (fst s)) f h) \<le> 1 \<Longrightarrow>
   length (activos (turnos (fst (snd (ejecutar cs s)))) f h) \<le> 1"
proof (induction cs arbitrary: s f h)
  case Nil
  then show ?case by simp
next
  case (Cons c cs)
  have "\<forall>f h. length (activos (turnos (fst (snd (paso c s)))) f h) \<le> 1"
    using paso_inv [OF Cons.prems] by blast
  from Cons.IH [OF this] this Cons.prems show ?case
    by simp
qed

section \<open>Facts about the example data\<close>

lemma digito_ej: "map digito [0, 1, 2, 3, 4, 5, 6, 7, 8, 9] = ''0123456789''"
  by code_simp

lemma digito_simps [simp]:
  "digito 0 = CHR ''0''" "digito 1 = CHR ''1''" "digito 2 = CHR ''2''" "digito 3 = CHR ''3''"
  "digito 4 = CHR ''4''" "digito 5 = CHR ''5''" "digito 6 = CHR ''6''" "digito 7 = CHR ''7''"
  "digito 8 = CHR ''8''" "digito 9 = CHR ''9''" "digito (Suc 0) = CHR ''1''"
  using digito_ej by simp_all

lemma iso_ej: "isoformat fecha_ej = ''2024-05-01''"
  by (simp add: isoformat_def fecha_ej_def zfill_def digitos.simps)

lemma hm_ej: "strftime_HM hora_ej = ''10:00''"
  by (simp add: strftime_HM_def hora_ej_def zfill_def digitos.simps)

lemma hm_ej2: "strftime_HM hora_ej2 = ''11:30''"
  by (simp add: strftime_HM_def hora_ej2_def zfill_def digitos.simps)

lemma strip_ej: "strip ''123'' = ''123''" "strip ''Ana'' = ''Ana''" "strip ''555'' = ''555''"
  "strip ''corte'' = ''corte''" "strip ''color'' = ''color''" "strip ''1'' = ''1''" "strip ''3'' = ''3''"
  "strip [] = []" "strip ''999'' = ''999''" "strip '' 3 '' = ''3''"
  by (simp_all add: strip_def recortar_def es_espacio_def)

lemma py_int_ej: "py_int ''1'' = Some 1" "py_int ''2'' = Some 2" "py_int ''7'' = Some 7"
  "py_int ''-5'' = Some (- 5)" "py_int ''x'' = None"
  by (simp_all add: py_int_def recortar_def es_espacio_int_def literal_nat_def es_digito_def
        valor_def valor_digito_def max_str_digits_def)

lemma imprimible_ej: "imprimible 1" "imprimible 2" "imprimible 3" "imprimible (- 5)"
  by (simp_all add: imprimible_pequeno)

lemma texto_decimal_ej: "texto_decimal 1 = ''1''" "texto_decimal 2 = ''2''"
  "texto_decimal 3 = ''3''" "texto_decimal (- 5) = ''-5''"
  by (simp_all add: texto_decimal_def digitos.simps)

lemma py_str_ej: "py_str 1 = Some ''1''" "py_str 2 = Some ''2''" "py_str 3 = Some ''3''"
  "py_str (- 5) = Some ''-5''"
  by (simp_all add: py_str_def imprimible_ej texto_decimal_ej)

lemmas ej_defs = peluqueria_vacia_def sin_archivos_def peluqueria_uno_def disco_uno_def
  peluqueria_dos_def disco_dos_def guion_dos_def
  turno_ej_def turno_en_def cliente_ej_def cab_clientes_def cab_turnos_def nuevo_turno_def

lemmas op_defs = registrar_cliente_def solicitar_turno_def modificar_o_cancelar_turno_def
  turno_ocupado_def guardar_y_avisar_def guardar_datos_def fila_cliente_def fila_turno_def
  celda_def Let_def

lemmas ev_ej = strip_ej iso_ej hm_ej hm_ej2 py_int_ej py_str_ej texto_decimal_ej

lemmas cargar_defs = init_def cargar_datos_def dict_reader_def fila_legible_def
  field_size_limit_def fila_dict_def leer_cliente_def leer_turno_def entonces_def campo_def
  campo_get_def campo_int_def


lemma init_negativo: "init disco_negativo = Inr peluqueria_negativa"
  by (simp add: disco_negativo_def peluqueria_negativa_def ej_defs cargar_defs py_int_ej)

lemma init_malo: "init disco_malo = Inl ValueError"
  by (simp add: disco_malo_def ej_defs cargar_defs py_int_ej)

lemma init_sin_hora: "init disco_sin_hora = Inr peluqueria_sin_hora"
  by (simp add: disco_sin_hora_def peluqueria_sin_hora_def turno_sin_hora_def ej_defs
        cargar_defs py_int_ej)

lemma ejecutar_uno:
  "snd (ejecutar [Registrar ''123'' ''Ana'' ''555'', Solicitar ''123'' fecha_ej hora_ej ''corte'']
          (peluqueria_vacia, sin_archivos)) = (peluqueria_uno, disco_uno)"
  by (simp add: ej_defs op_defs ev_ej)


section \<open>Facts about saving\<close>







section \<open>The slot check\<close>

text \<open>
  C7: \<open>turno_ocupado\<close> answers true exactly when some appointment of the table is
  ACTIVE and its stored date and time are the ISO text of the date and the \<open>HH:MM\<close>
  text of the time asked for; the comparison is plain equality of the stored values.
\<close>

theorem turno_ocupado_iff:
  "turno_ocupado p f h \<longleftrightarrow>
     (\<exists>t \<in> set (map snd (turnos p)).
        estado t = Some ''ACTIVO'' \<and> fecha t = Some (isoformat f) \<and>
        hora t = Some (strftime_HM h))"
  unfolding turno_ocupado_def by (rule hay_activo_iff)

theorem turno_ocupado_iff_witness:
  "\<exists>t \<in> set (map snd (turnos peluqueria_doble)).
     estado t = Some ''ACTIVO'' \<and> fecha t = Some (isoformat fecha_ej) \<and>
     hora t = Some (strftime_HM hora_ej)"
proof -
  have "turno_ocupado peluqueria_doble fecha_ej hora_ej"
    by (simp add: turno_ocupado_def peluqueria_doble_def ej_defs ev_ej)
  then show ?thesis
    by (rule turno_ocupado_iff [THEN iffD1])
qed

section \<open>The listing by date\<close>






section \<open>The refusals\<close>

lemma guardar_no_fallo:
  "\<not> es_fallo (fst (guardar_y_avisar Cliente_registrado p d))"
  "\<not> es_fallo (fst (guardar_y_avisar (Turno_registrado i) p d))"
  "\<not> es_fallo (fst (guardar_y_avisar Turno_actualizado p d))"
  by (simp_all add: guardar_y_avisar_msg es_fallo_def split: option.splits)

lemma registrar_fallo:
  "es_fallo (fst (registrar_cliente dni_in nombre_in telefono_in s)) \<Longrightarrow>
   snd (registrar_cliente dni_in nombre_in telefono_in s) = s"
  by (simp add: registrar_cliente_def Let_def guardar_no_fallo split: if_splits)

lemma solicitar_fallo:
  "es_fallo (fst (solicitar_turno dni_in f h servicio_in s)) \<Longrightarrow>
   snd (solicitar_turno dni_in f h servicio_in s) = s"
  by (simp add: solicitar_turno_def Let_def guardar_no_fallo nuevo_turno_def split: if_splits)

lemma modificar_forma:
  "(\<exists>m. es_fallo m \<and>
        modificar_o_cancelar_turno id_in opcion_in f h servicio_in s = (m, fst s, snd s)) \<or>
   (\<exists>p'. modificar_o_cancelar_turno id_in opcion_in f h servicio_in s =
           guardar_y_avisar Turno_actualizado p' (snd s))"
proof (cases "turnos (fst s) = []")
  case True
  then show ?thesis
    by (simp add: modificar_o_cancelar_turno_def es_fallo_def)
next
  case ne: False
  show ?thesis
  proof (cases "py_int id_in")
    case None
    with ne show ?thesis
      by (simp add: modificar_o_cancelar_turno_def es_fallo_def)
  next
    case i: (Some i)
    show ?thesis
    proof (cases "map_of (turnos (fst s)) i")
      case None
      with ne i show ?thesis
        by (simp add: modificar_o_cancelar_turno_def es_fallo_def)
    next
      case t: (Some t)
      consider (uno) "strip opcion_in = ''1''" "turno_ocupado (fst s) f h"
        | (uno') "strip opcion_in = ''1''" "\<not> turno_ocupado (fst s) f h"
        | (dos) "strip opcion_in \<noteq> ''1''" "strip opcion_in = ''2''"
        | (tres) "strip opcion_in \<noteq> ''1''" "strip opcion_in \<noteq> ''2''" "strip opcion_in = ''3''"
        | (otra) "strip opcion_in \<noteq> ''1''" "strip opcion_in \<noteq> ''2''" "strip opcion_in \<noteq> ''3''"
        by blast
      then show ?thesis
      proof cases
        case uno
        with ne i t show ?thesis
          by (simp add: modificar_o_cancelar_turno_def es_fallo_def)
      next
        case uno'
        with ne i t show ?thesis
          by (intro disjI2 exI [of _ "(fst s)\<lparr>turnos := AList.update i (t\<lparr>fecha := Some (isoformat f), hora := Some (strftime_HM h)\<rparr>) (turnos (fst s))\<rparr>"])
            (simp add: modificar_o_cancelar_turno_def Let_def)
      next
        case dos
        with ne i t show ?thesis
          by (intro disjI2 exI [of _ "(fst s)\<lparr>turnos := AList.update i (t\<lparr>servicio := Some (strip servicio_in)\<rparr>) (turnos (fst s))\<rparr>"])
            (simp add: modificar_o_cancelar_turno_def Let_def)
      next
        case tres
        with ne i t show ?thesis
          by (intro disjI2 exI [of _ "(fst s)\<lparr>turnos := AList.update i (t\<lparr>estado := Some ''CANCELADO''\<rparr>) (turnos (fst s))\<rparr>"])
            (simp add: modificar_o_cancelar_turno_def Let_def)
      next
        case otra
        with ne i t show ?thesis
          by (simp add: modificar_o_cancelar_turno_def es_fallo_def)
      qed
    qed
  qed
qed

lemma modificar_fallo:
  assumes "es_fallo (fst (modificar_o_cancelar_turno id_in opcion_in f h servicio_in s))"
  shows "snd (modificar_o_cancelar_turno id_in opcion_in f h servicio_in s) = s"
  using modificar_forma [of id_in opcion_in f h servicio_in s] assms
  by (auto simp: guardar_no_fallo)

text \<open>
  C10: when registering a client, booking or modifying ends with one of the refusals
  (client already registered, no client or unknown client, slot taken, no appointment or
  unknown appointment, identifier that is no number, unknown option), the object and the
  files are exactly what they were: both tables and the counter are untouched and
  \<open>guardar_datos\<close> has not run.
\<close>

theorem fallo_sin_efecto:
  "(es_fallo (fst (registrar_cliente dni_in nombre_in telefono_in s)) \<longrightarrow>
      snd (registrar_cliente dni_in nombre_in telefono_in s) = s) \<and>
   (es_fallo (fst (solicitar_turno dni_in f h servicio_in s)) \<longrightarrow>
      snd (solicitar_turno dni_in f h servicio_in s) = s) \<and>
   (es_fallo (fst (modificar_o_cancelar_turno id_in opcion_in f h servicio_in s)) \<longrightarrow>
      snd (modificar_o_cancelar_turno id_in opcion_in f h servicio_in s) = s)"
  using registrar_fallo solicitar_fallo modificar_fallo by blast

theorem fallo_sin_efecto_witness:
  "snd (registrar_cliente ''123'' ''Ana'' ''555'' (peluqueria_doble, disco_doble)) =
     (peluqueria_doble, disco_doble) \<and>
   snd (solicitar_turno ''123'' fecha_ej hora_ej ''color'' (peluqueria_doble, disco_doble)) =
     (peluqueria_doble, disco_doble) \<and>
   snd (modificar_o_cancelar_turno ''7'' ''1'' fecha_ej hora_ej ''color''
         (peluqueria_doble, disco_doble)) =
     (peluqueria_doble, disco_doble)"
proof -
  have "es_fallo (fst (registrar_cliente ''123'' ''Ana'' ''555'' (peluqueria_doble, disco_doble)))"
    by (simp add: es_fallo_def peluqueria_doble_def ej_defs op_defs ev_ej)
  moreover have
    "es_fallo (fst (solicitar_turno ''123'' fecha_ej hora_ej ''color'' (peluqueria_doble, disco_doble)))"
    by (simp add: es_fallo_def peluqueria_doble_def ej_defs op_defs ev_ej)
  moreover have
    "es_fallo (fst (modificar_o_cancelar_turno ''7'' ''1'' fecha_ej hora_ej ''color''
       (peluqueria_doble, disco_doble)))"
    by (simp add: es_fallo_def peluqueria_doble_def ej_defs op_defs ev_ej)
  ultimately show ?thesis
    using fallo_sin_efecto [of "''123''" "''Ana''" "''555''" "(peluqueria_doble, disco_doble)"
        fecha_ej hora_ej "''color''" "''7''" "''1''"]
    by blast
qed

section \<open>One ACTIVE appointment per slot\<close>

text \<open>
  C2: start with no files, so with empty tables, and run any script of menu choices
  (registering, booking, listing, rescheduling, changing the service, cancelling, saving).
  In the state reached, for every pair of a stored date and a stored time, at most one
  appointment of the table is ACTIVE with that date and that time. Only appointments
  whose status is ACTIVE are counted.
\<close>

theorem un_activo_por_horario:
  "length (activos_en (fst (snd (ejecutar cs (peluqueria_vacia, sin_archivos)))) f h) \<le> 1"
  unfolding activos_en_def
  by (rule ejecutar_inv) (simp add: activos_def peluqueria_vacia_def)

section \<open>Booking\<close>




section \<open>Rescheduling to the own slot\<close>

text \<open>
  C1, as the code has it: \<open>modificar_o_cancelar_turno\<close> asks \<open>turno_ocupado\<close> about the
  target slot without setting the appointment being modified aside. For an appointment of
  the table whose stored date and time are the target slot, rescheduling is refused with
  the slot-taken message, changing nothing, when an ACTIVE appointment holds that slot;
  otherwise the tables stay as they are and \<open>guardar_datos\<close> runs, after which the
  success message is printed (or the exception of the save ends the operation). When the
  appointment itself is ACTIVE the slot is taken, so the request is refused.
\<close>

theorem reprogramar_mismo_horario:
  assumes "py_int id_in = Some i" and "map_of (turnos p) i = Some t"
    and "strip opcion_in = ''1''"
    and "fecha t = Some (isoformat f)" and "hora t = Some (strftime_HM h)"
  shows "modificar_o_cancelar_turno id_in opcion_in f h servicio_in (p, d) =
           (if turno_ocupado p f h then (Turno_ya_activo, p, d)
            else (case fst (guardar_datos p d) of
                    None \<Rightarrow> (Turno_actualizado, p, snd (guardar_datos p d))
                  | Some e \<Rightarrow> (Excepcion e, p, snd (guardar_datos p d)))) \<and>
         (estado t = Some ''ACTIVO'' \<longrightarrow> turno_ocupado p f h)"
proof -
  have ne: "turnos p \<noteq> []"
    using assms(2) by auto
  have "t\<lparr>fecha := Some (isoformat f), hora := Some (strftime_HM h)\<rparr> = t"
    using assms(4,5) by simp
  then have same: "AList.update i (t\<lparr>fecha := Some (isoformat f), hora := Some (strftime_HM h)\<rparr>)
                     (turnos p) = turnos p"
    using assms(2) by (simp add: AList.update_triv)
  have "t \<in> set (map snd (turnos p))"
    using map_of_SomeD [OF assms(2)] by force
  then have "estado t = Some ''ACTIVO'' \<longrightarrow> turno_ocupado p f h"
    using assms(4,5) by (auto simp: turno_ocupado_def hay_activo_iff)
  then show ?thesis
    using assms(1,2,3) ne same
    by (simp add: modificar_o_cancelar_turno_def Let_def guardar_y_avisar_def)
qed

theorem reprogramar_mismo_horario_witness:
  "modificar_o_cancelar_turno ''1'' ''1'' fecha_ej hora_ej [] (peluqueria_doble, disco_doble) =
     (Turno_ya_activo, peluqueria_doble, disco_doble) \<and>
   modificar_o_cancelar_turno ''1'' ''1'' fecha_ej hora_ej [] (peluqueria_cancelada, sin_archivos) =
     (Turno_actualizado, peluqueria_cancelada,
      \<lparr>clientes_csv = Some [cab_clientes, [''123'', ''Ana'', ''555'']],
       turnos_csv = Some [cab_turnos,
         [''1'', ''123'', ''2024-05-01'', ''10:00'', ''corte'', ''CANCELADO'']],
       escrituras = 1\<rparr>)"
proof -
  have f: "fecha (turno_ej 1 ''corte'' e) = Some (isoformat fecha_ej)" for e
    by (simp add: ej_defs ev_ej)
  have h: "hora (turno_ej 1 ''corte'' e) = Some (strftime_HM hora_ej)" for e
    by (simp add: ej_defs ev_ej)
  have t1: "map_of (turnos peluqueria_doble) 1 = Some (turno_ej 1 ''corte'' ''ACTIVO'')"
    by (simp add: peluqueria_doble_def)
  have t2: "map_of (turnos peluqueria_cancelada) 1 = Some (turno_ej 1 ''corte'' ''CANCELADO'')"
    by (simp add: peluqueria_cancelada_def)
  have a: "estado (turno_ej 1 ''corte'' ''ACTIVO'') = Some ''ACTIVO''"
    by (simp add: ej_defs)
  have l: "\<not> turno_ocupado peluqueria_cancelada fecha_ej hora_ej"
    by (simp add: turno_ocupado_def peluqueria_cancelada_def ej_defs ev_ej)
  have g: "guardar_datos peluqueria_cancelada sin_archivos =
     (None,
      \<lparr>clientes_csv = Some [cab_clientes, [''123'', ''Ana'', ''555'']],
       turnos_csv = Some [cab_turnos,
         [''1'', ''123'', ''2024-05-01'', ''10:00'', ''corte'', ''CANCELADO'']],
       escrituras = 1\<rparr>)"
    by (simp add: peluqueria_cancelada_def ej_defs op_defs ev_ej)
  show ?thesis
    using reprogramar_mismo_horario [OF py_int_ej(1) t1 strip_ej(6) f h, of "[]" disco_doble]
      reprogramar_mismo_horario [OF py_int_ej(1) t2 strip_ej(6) f h, of "[]" sin_archivos] a l g
    by simp
qed

text \<open>
  An ACTIVE appointment booked from the empty store and then rescheduled to the date and
  time it already has: the request is refused.
\<close>

theorem reprogramar_mismo_horario_contraejemplo:
  "snd (ejecutar [Registrar ''123'' ''Ana'' ''555'', Solicitar ''123'' fecha_ej hora_ej ''corte'']
          (peluqueria_vacia, sin_archivos)) = (peluqueria_uno, disco_uno) \<and>
   map_of (turnos peluqueria_uno) 1 = Some (turno_ej 1 ''corte'' ''ACTIVO'') \<and>
   fecha (turno_ej 1 ''corte'' ''ACTIVO'') = Some (isoformat fecha_ej) \<and>
   hora (turno_ej 1 ''corte'' ''ACTIVO'') = Some (strftime_HM hora_ej) \<and>
   modificar_o_cancelar_turno ''1'' ''1'' fecha_ej hora_ej [] (peluqueria_uno, disco_uno) =
     (Turno_ya_activo, peluqueria_uno, disco_uno)"
  using ejecutar_uno
  by (simp add: ej_defs modificar_o_cancelar_turno_def turno_ocupado_def Let_def ev_ej)

section \<open>Cancelling, then booking the slot again\<close>





section \<open>Bookings at pairwise distinct slots\<close>






section \<open>Saving and loading\<close>


















lemma cargar_turnos_max:
  "cargar_turnos rows acc m = Inr (ts, m') \<Longrightarrow> m = Max (insert 0 (fst ` set acc)) \<Longrightarrow>
   m' = Max (insert 0 (fst ` set ts))"
proof (induction rows acc m rule: cargar_turnos.induct)
  case (1 ts' m)
  then show ?case by auto
next
  case (2 e rows ts' m)
  then show ?case by simp
next
  case (3 row rows acc m)
  from "3.prems"(1) obtain t where t: "leer_turno row = Inr t"
    and rest: "cargar_turnos rows (AList.update (id_turno t) t acc)
                 (if id_turno t > m then id_turno t else m) = Inr (ts, m')"
    by (auto split: sum.splits)
  define M where "M = Max (insert 0 (fst ` set acc))"
  define N where "N = Max (insert 0 (fst ` set (AList.update (id_turno t) t acc)))"
  have k: "fst ` set (AList.update (id_turno t) t acc) = insert (id_turno t) (fst ` set acc)"
    by (simp add: AList.dom_update)
  have "Max (insert (id_turno t) (insert 0 (fst ` set acc))) =
        max (id_turno t) (Max (insert 0 (fst ` set acc)))"
    by (rule Max_insert) simp_all
  then have "Max (insert 0 (fst ` set (AList.update (id_turno t) t acc))) =
             max (id_turno t) (Max (insert 0 (fst ` set acc)))"
    unfolding k by (simp only: insert_commute)
  then have mx: "N = max (id_turno t) M"
    unfolding M_def N_def .
  have "m = M"
    using "3.prems"(2) unfolding M_def .
  with mx have "(if id_turno t > m then id_turno t else m) = N"
    by (simp add: max_def)
  then have "(if id_turno t > m then id_turno t else m) =
             Max (insert 0 (fst ` set (AList.update (id_turno t) t acc)))"
    unfolding N_def .
  from "3.IH" [OF t rest this] show ?case .
qed

lemma init_casos:
  assumes "init d = Inr p"
  shows "(case clientes_csv d of None \<Rightarrow> clientes p = []
          | Some f \<Rightarrow> cargar_clientes (dict_reader f) [] = Inr (clientes p)) \<and>
         (case turnos_csv d of None \<Rightarrow> turnos p = [] \<and> next_id p = 1
          | Some f \<Rightarrow> (\<exists>m. cargar_turnos (dict_reader f) [] 0 = Inr (turnos p, m) \<and>
                           next_id p = m + 1))"
  using assms
  by (auto simp: init_def cargar_datos_def peluqueria_vacia_def split: option.splits sum.splits)












section \<open>The counter after a load\<close>

text \<open>
  C8, as the code has it: \<open>cargar_datos\<close> starts its maximum at 0. After a load that
  succeeds, the counter is 1 plus the greater of 0 and the greatest identifier read; so it
  is 1 plus the greatest identifier read when some identifier read is not negative, and 1
  when no appointment was read. A file that does not exist leaves its table empty; with
  neither file the load gives the empty store; and whenever the load fails, the failure
  comes from reading a file that exists.
\<close>

theorem init_contador:
  "(init d = Inr p \<longrightarrow> next_id p = 1 + Max (insert 0 (fst ` set (turnos p)))) \<and>
   (init d = Inr p \<and> (\<exists>i \<in> fst ` set (turnos p). 0 \<le> i) \<longrightarrow>
      next_id p = 1 + Max (fst ` set (turnos p))) \<and>
   (init d = Inr p \<and> turnos p = [] \<longrightarrow> next_id p = 1) \<and>
   (init d = Inr p \<and> turnos_csv d = None \<longrightarrow> turnos p = []) \<and>
   (init d = Inr p \<and> clientes_csv d = None \<longrightarrow> clientes p = []) \<and>
   (clientes_csv d = None \<and> turnos_csv d = None \<longrightarrow> init d = Inr peluqueria_vacia) \<and>
   (init d = Inl e \<longrightarrow>
      (\<exists>f. clientes_csv d = Some f \<and> cargar_clientes (dict_reader f) [] = Inl e) \<or>
      (\<exists>f. turnos_csv d = Some f \<and> cargar_turnos (dict_reader f) [] 0 = Inl e))"
proof -
  have a: "next_id p = 1 + Max (insert 0 (fst ` set (turnos p)))" if "init d = Inr p"
  proof (cases "turnos_csv d")
    case None
    with init_casos [OF that] show ?thesis by simp
  next
    case (Some f)
    with init_casos [OF that] obtain m
      where m: "cargar_turnos (dict_reader f) [] 0 = Inr (turnos p, m)" and n: "next_id p = m + 1"
      by auto
    from cargar_turnos_max [OF m] n show ?thesis by simp
  qed
  have b: "next_id p = 1 + Max (fst ` set (turnos p))"
    if "init d = Inr p" and "\<exists>i \<in> fst ` set (turnos p). 0 \<le> i"
  proof -
    from that(2) obtain i where i: "i \<in> fst ` set (turnos p)" "0 \<le> i" by blast
    have fin: "finite (fst ` set (turnos p))" "fst ` set (turnos p) \<noteq> {}"
      using i by auto
    have "0 \<le> Max (fst ` set (turnos p))"
      using i fin by (meson Max_ge order_trans)
    then have "Max (insert 0 (fst ` set (turnos p))) = Max (fst ` set (turnos p))"
      using fin by (simp add: max_def)
    with a [OF that(1)] show ?thesis by simp
  qed
  have c: "next_id p = 1" if "init d = Inr p" and "turnos p = []"
    using a [OF that(1)] that(2) by simp
  have dd: "turnos p = []" if "init d = Inr p" and "turnos_csv d = None"
    using init_casos [OF that(1)] that(2) by simp
  have ee: "clientes p = []" if "init d = Inr p" and "clientes_csv d = None"
    using init_casos [OF that(1)] that(2) by simp
  have ff: "init d = Inr peluqueria_vacia" if "clientes_csv d = None" and "turnos_csv d = None"
    using that by (simp add: init_def cargar_datos_def peluqueria_vacia_def)
  have gg: "(\<exists>f. clientes_csv d = Some f \<and> cargar_clientes (dict_reader f) [] = Inl e) \<or>
            (\<exists>f. turnos_csv d = Some f \<and> cargar_turnos (dict_reader f) [] 0 = Inl e)"
    if "init d = Inl e"
    using that
    by (auto simp: init_def cargar_datos_def peluqueria_vacia_def split: option.splits sum.splits)
  from a b c dd ee ff gg show ?thesis by blast
qed

theorem init_contador_witness:
  "init disco_sin_hora = Inr peluqueria_sin_hora \<and>
   fst ` set (turnos peluqueria_sin_hora) = {1, 2} \<and>
   next_id peluqueria_sin_hora = 3 \<and>
   next_id peluqueria_sin_hora = 1 + Max (insert 0 (fst ` set (turnos peluqueria_sin_hora))) \<and>
   next_id peluqueria_sin_hora = 1 + Max (fst ` set (turnos peluqueria_sin_hora)) \<and>
   init sin_archivos = Inr peluqueria_vacia \<and>
   next_id peluqueria_vacia = 1 \<and>
   init disco_negativo = Inr peluqueria_negativa \<and>
   clientes peluqueria_negativa = [] \<and>
   init disco_malo = Inl ValueError \<and>
   ((\<exists>f. clientes_csv disco_malo = Some f \<and> cargar_clientes (dict_reader f) [] = Inl ValueError) \<or>
    (\<exists>f. turnos_csv disco_malo = Some f \<and> cargar_turnos (dict_reader f) [] 0 = Inl ValueError))"
proof -
  note corta = init_contador [of disco_sin_hora peluqueria_sin_hora]
  note vacio = init_contador [of sin_archivos peluqueria_vacia]
  note negativo = init_contador [of disco_negativo peluqueria_negativa]
  note malo = init_contador [of disco_malo peluqueria_vacia ValueError]
  have k: "fst ` set (turnos peluqueria_sin_hora) = {1, 2}"
    by (auto simp: peluqueria_sin_hora_def)
  have i: "\<exists>i \<in> fst ` set (turnos peluqueria_sin_hora). 0 \<le> i"
    by (simp add: peluqueria_sin_hora_def)
  have n: "clientes_csv sin_archivos = None \<and> turnos_csv sin_archivos = None"
    by (simp add: sin_archivos_def)
  have v: "turnos peluqueria_vacia = []"
    by (simp add: peluqueria_vacia_def)
  have cn: "clientes_csv disco_negativo = None"
    by (simp add: disco_negativo_def)
  have c0: "next_id peluqueria_sin_hora = 3"
    by (simp add: peluqueria_sin_hora_def)
  have c1: "next_id peluqueria_sin_hora =
            1 + Max (insert 0 (fst ` set (turnos peluqueria_sin_hora)))"
    by (rule corta [THEN conjunct1, THEN mp, OF init_sin_hora])
  have c2: "next_id peluqueria_sin_hora = 1 + Max (fst ` set (turnos peluqueria_sin_hora))"
    by (rule corta [THEN conjunct2, THEN conjunct1, THEN mp, OF conjI [OF init_sin_hora i]])
  have c3: "init sin_archivos = Inr peluqueria_vacia"
    by (rule vacio [THEN conjunct2, THEN conjunct2, THEN conjunct2, THEN conjunct2,
          THEN conjunct2, THEN conjunct1, THEN mp, OF n])
  have c4: "next_id peluqueria_vacia = 1"
    by (rule vacio [THEN conjunct2, THEN conjunct2, THEN conjunct1, THEN mp, OF conjI [OF c3 v]])
  have c5: "clientes peluqueria_negativa = []"
    by (rule negativo [THEN conjunct2, THEN conjunct2, THEN conjunct2, THEN conjunct2,
          THEN conjunct1, THEN mp, OF conjI [OF init_negativo cn]])
  have c6: "(\<exists>f. clientes_csv disco_malo = Some f \<and>
                cargar_clientes (dict_reader f) [] = Inl ValueError) \<or>
            (\<exists>f. turnos_csv disco_malo = Some f \<and>
                cargar_turnos (dict_reader f) [] 0 = Inl ValueError)"
    by (rule malo [THEN conjunct2, THEN conjunct2, THEN conjunct2, THEN conjunct2,
          THEN conjunct2, THEN conjunct2, THEN mp, OF init_malo])
  from init_sin_hora k c0 c1 c2 c3 c4 init_negativo c5 init_malo c6 show ?thesis
    by (intro conjI)
qed

text \<open>
  A file whose only appointment has the identifier -5 loads; the counter is then 1, not
  1 plus the greatest identifier read.
\<close>

theorem init_contador_contraejemplo:
  "init disco_negativo = Inr peluqueria_negativa \<and>
   fst ` set (turnos peluqueria_negativa) = {- 5} \<and>
   next_id peluqueria_negativa = 1 \<and>
   next_id peluqueria_negativa \<noteq> 1 + Max (fst ` set (turnos peluqueria_negativa))"
  using init_negativo by (simp add: peluqueria_negativa_def)

end
